theory Spec2Isabelle
  imports Main
begin

section \<open>The connections sample: data\<close>

text \<open>
  The program is the coroutine \<^verbatim>\<open>sample_connections_async\<close> of
  \<^verbatim>\<open>sample_connections_async.py\<close>. It is a straight-line script over external
  collaborators (the process environment, the project client, the two chat clients).
  The embedding keeps the script's control flow and makes two things explicit: every
  call to a collaborator is logged as an event, in the order Python evaluates it, and
  the answer of the collaborator (a value or a raised exception) is read from a
  \<open>world\<close> that is a parameter of the run.
\<close>

text \<open>
  Modelled from the spec: the enumerations \<^verbatim>\<open>ConnectionType\<close> and
  \<^verbatim>\<open>AuthenticationType\<close> are imported from \<^verbatim>\<open>azure.ai.projects.models\<close>, which is
  not among the sources. The script names the members \<^verbatim>\<open>AZURE_OPEN_AI\<close>,
  \<^verbatim>\<open>AZURE_AI_SERVICES\<close>, \<^verbatim>\<open>API_KEY\<close> and \<^verbatim>\<open>ENTRA_ID\<close>; the spec lists
  {AzureOpenAI, AzureAIServices, Serverless, ...} and {ApiKey, EntraId, ...}. Every
  further member is carried by its value.
\<close>

datatype connection_type =
    AZURE_OPEN_AI
  | AZURE_AI_SERVICES
  | SERVERLESS
  | OtherConnectionType string

datatype authentication_type =
    API_KEY
  | ENTRA_ID
  | OtherAuthenticationType string

text \<open>An opaque credential-provider handle.\<close>

datatype token_credential = TokenCredential nat

text \<open>
  Modelled from the spec: the Connection record (section 3 of the spec; the class is in
  \<^verbatim>\<open>azure.ai.projects.models\<close>). The script reads \<^verbatim>\<open>connection_type\<close>,
  \<^verbatim>\<open>authentication_type\<close>, \<^verbatim>\<open>endpoint_url\<close>, \<^verbatim>\<open>key\<close> and
  \<^verbatim>\<open>token_credential\<close>; the last two are optional.
\<close>

record connection =
  name :: string
  connection_type :: connection_type
  authentication_type :: authentication_type
  endpoint_url :: string
  key :: "string option"
  token_credential :: "token_credential option"

text \<open>
  The exceptions of a run. \<open>KeyError\<close> is what \<^verbatim>\<open>os.environ[...]\<close> raises,
  \<open>ValueError\<close> what the script raises itself, \<open>IndexError\<close> what
  \<^verbatim>\<open>choices[0]\<close> raises on an empty list, and \<open>ExternalError\<close> stands for
  whatever a collaborator raises.
\<close>

datatype exn =
    KeyError string
  | ValueError string
  | IndexError
  | ExternalError string

text \<open>
  The value that \<^verbatim>\<open>get_bearer_token_provider(credential, scope)\<close> returns: a
  callable that remembers the credential and the scope it was made from.
\<close>

datatype token_provider = BearerTokenProvider "token_credential option" string

text \<open>
  The two chat clients, as the keyword arguments their constructors are called with.
  An argument the call leaves out has the constructor's default \<^verbatim>\<open>None\<close>.
\<close>

record AsyncAzureOpenAI =
  api_key :: "string option"
  azure_ad_token_provider :: "token_provider option"
  azure_endpoint :: string
  api_version :: string

datatype inference_credential =
    AzureKeyCredential string
  | AsyncTokenCredential "token_credential option"

record ChatCompletionsClient =
  endpoint :: string
  credential :: inference_credential

text \<open>
  The messages of the two requests: a list of dictionaries for the OpenAI-compatible
  client, a list of \<^verbatim>\<open>UserMessage\<close> objects for the Inference-service client.
\<close>

type_synonym openai_message = "(string \<times> string) list"

datatype inference_message = UserMessage string

text \<open>
  A response, reduced to what the script reads of it: the \<^verbatim>\<open>message.content\<close> of
  each choice, in order (\<^verbatim>\<open>None\<close> when the choice has no text).
\<close>

type_synonym chat_response = "string option list"

section \<open>Events and the world\<close>

datatype event =
    EnvironGet string
  | NewDefaultAzureCredential
  | FromConnectionString string
  | SessionEnter
  | SessionExit
  | ConnectionsList "connection_type option"
  | ConnectionsGetDefault connection_type bool
  | ConnectionsGet string bool
  | Print string
  | GetBearerTokenProvider "token_credential option" string
  | NewAzureKeyCredential string
  | NewAsyncAzureOpenAI AsyncAzureOpenAI
  | NewChatCompletionsClient ChatCompletionsClient
  | ChatCompletionsCreate AsyncAzureOpenAI string "openai_message list"
  | InferenceComplete ChatCompletionsClient string "inference_message list"
  | OpenAIClose AsyncAzureOpenAI
  | InferenceClose ChatCompletionsClient

text \<open>
  The world answers the calls whose outcome the script does not decide. A constructor
  answers with the exception it raises, if any; a query answers with an exception or a
  value. \<open>str_connection\<close> is \<^verbatim>\<open>str(connection)\<close> and
  \<open>format_authentication_type\<close> is what an f-string makes of an
  \<^verbatim>\<open>AuthenticationType\<close>; both belong to the absent models module.
\<close>

record world =
  environ :: "string \<Rightarrow> string option"
  str_connection :: "connection \<Rightarrow> string"
  format_authentication_type :: "authentication_type \<Rightarrow> string"
  from_connection_string :: "string \<Rightarrow> exn option"
  connections_list :: "connection_type option \<Rightarrow> exn + connection list"
  connections_get_default :: "connection_type \<Rightarrow> bool \<Rightarrow> exn + connection"
  connections_get :: "string \<Rightarrow> bool \<Rightarrow> exn + connection"
  openai_init :: "AsyncAzureOpenAI \<Rightarrow> exn option"
  chat_completions_create ::
    "AsyncAzureOpenAI \<Rightarrow> string \<Rightarrow> openai_message list \<Rightarrow> exn + chat_response"
  inference_init :: "ChatCompletionsClient \<Rightarrow> exn option"
  inference_complete ::
    "ChatCompletionsClient \<Rightarrow> string \<Rightarrow> inference_message list \<Rightarrow> exn + chat_response"

section \<open>Effects: a result and the events emitted\<close>

text \<open>
  A computation is the pair of its outcome (\<open>Inl\<close> a raised exception, \<open>Inr\<close> a
  value) and the events it emitted, oldest first. Sequencing stops at the first
  exception and keeps the events emitted up to it.
\<close>

type_synonym 'a io = "(exn + 'a) \<times> event list"

definition ret :: "'a \<Rightarrow> 'a io" where
  "ret x = (Inr x, [])"

definition raise :: "exn \<Rightarrow> 'a io" where
  "raise e = (Inl e, [])"

definition emit :: "event \<Rightarrow> unit io" where
  "emit ev = (Inr (), [ev])"

definition call :: "event \<Rightarrow> exn + 'a \<Rightarrow> 'a io" where
  "call ev r = (r, [ev])"

definition construct :: "event \<Rightarrow> exn option \<Rightarrow> 'a \<Rightarrow> 'a io" where
  "construct ev err obj = ((case err of None \<Rightarrow> Inr obj | Some e \<Rightarrow> Inl e), [ev])"

definition io_bind :: "'a io \<Rightarrow> ('a \<Rightarrow> 'b io) \<Rightarrow> 'b io" where
  "io_bind m f =
     (case fst m of
        Inl e \<Rightarrow> (Inl e, snd m)
      | Inr x \<Rightarrow> (fst (f x), snd m @ snd (f x)))"

text \<open>
  \<^verbatim>\<open>async with project_client: body\<close>. The session is entered, the body runs,
  and the session is left whether the body returned or raised; the outcome of the
  body is the outcome of the block (the exit does not swallow an exception, and
  entering and leaving are taken not to raise).
\<close>

definition async_with :: "'a io \<Rightarrow> 'a io" where
  "async_with body = (fst body, [SessionEnter] @ snd body @ [SessionExit])"

text \<open>\<^verbatim>\<open>for x in xs: body(x)\<close>\<close>

fun for_each :: "'a list \<Rightarrow> ('a \<Rightarrow> unit io) \<Rightarrow> unit io" where
  "for_each [] body = ret ()"
| "for_each (x # xs) body = io_bind (body x) (\<lambda>_. for_each xs body)"

section \<open>Python's built-ins used by the script\<close>

text \<open>
  \<^verbatim>\<open>str(n)\<close> for a length: the decimal digits. \<open>digit_char\<close> is applied to
  numbers below ten only.
\<close>

definition digit_char :: "nat \<Rightarrow> char" where
  "digit_char d = ''0123456789'' ! d"

fun str_nat :: "nat \<Rightarrow> string" where
  "str_nat n = (if n < 10 then [digit_char n] else str_nat (n div 10) @ [digit_char (n mod 10)])"

text \<open>\<^verbatim>\<open>os.environ[k]\<close> raises \<^verbatim>\<open>KeyError(k)\<close> when the variable is not set.\<close>

definition environ_get :: "world \<Rightarrow> string \<Rightarrow> string io" where
  "environ_get w k =
     call (EnvironGet k) (case environ w k of None \<Rightarrow> Inl (KeyError k) | Some v \<Rightarrow> Inr v)"

text \<open>\<^verbatim>\<open>print(x)\<close> for an optional string: \<^verbatim>\<open>None\<close> prints as its name.\<close>

definition str_optional :: "string option \<Rightarrow> string" where
  "str_optional x = (case x of None \<Rightarrow> ''None'' | Some s \<Rightarrow> s)"

text \<open>\<^verbatim>\<open>connection.key or ""\<close>: the key unless it is \<^verbatim>\<open>None\<close> or empty.\<close>

definition key_or_empty :: "string option \<Rightarrow> string" where
  "key_or_empty k = (case k of None \<Rightarrow> [] | Some s \<Rightarrow> (if s = [] then [] else s))"

declare str_nat.simps [simp del]

section \<open>The script\<close>

text \<open>
  Lines 37 to 39: the three environment variables, read in this order. The first one
  that is not set ends the run.
\<close>

definition read_environment :: "world \<Rightarrow> (string \<times> string \<times> string) io" where
  "read_environment w =
     io_bind (environ_get w ''PROJECT_CONNECTION_STRING'') (\<lambda>project_connection_string.
     io_bind (environ_get w ''CONNECTION_NAME'') (\<lambda>connection_name.
     io_bind (environ_get w ''MODEL_DEPLOYMENT_NAME'') (\<lambda>model_deployment_name.
     ret (project_connection_string, connection_name, model_deployment_name))))"

text \<open>
  Lines 41 to 44: the credential is an argument, so it is made before
  \<^verbatim>\<open>from_connection_string\<close> is called.
\<close>

definition new_project_client :: "world \<Rightarrow> string \<Rightarrow> unit io" where
  "new_project_client w project_connection_string =
     io_bind (emit NewDefaultAzureCredential) (\<lambda>_.
     construct (FromConnectionString project_connection_string)
       (from_connection_string w project_connection_string) ())"

text \<open>
  Lines 48 to 76, the body of the \<^verbatim>\<open>async with\<close> block. The variables
  \<^verbatim>\<open>connections\<close> and \<^verbatim>\<open>connection\<close> are assigned more than once; a later
  binding hides the earlier one, as the assignment overwrites it. The value of the
  body is the value of \<^verbatim>\<open>connection\<close> at line 76, which the code after the block
  reads. The header of line 58 is a plain string, not an f-string.
\<close>

definition session_body :: "world \<Rightarrow> string \<Rightarrow> connection io" where
  "session_body w connection_name =
     io_bind (call (ConnectionsList None) (connections_list w None)) (\<lambda>connections.
     io_bind (emit (Print (''====> Listing of all connections (found ''
                @ str_nat (length connections) @ ''):''))) (\<lambda>_.
     io_bind (for_each connections (\<lambda>connection.
                emit (Print (str_connection w connection)))) (\<lambda>_.
     io_bind (call (ConnectionsList (Some AZURE_OPEN_AI))
                (connections_list w (Some AZURE_OPEN_AI))) (\<lambda>connections.
     io_bind (emit (Print
                ''====> Listing of all Azure Open AI connections (found {len(connections)}):'')) (\<lambda>_.
     io_bind (for_each connections (\<lambda>connection.
                emit (Print (str_connection w connection)))) (\<lambda>_.
     io_bind (call (ConnectionsGetDefault AZURE_AI_SERVICES True)
                (connections_get_default w AZURE_AI_SERVICES True)) (\<lambda>connection.
     io_bind (emit (Print ''====> Get default Azure AI Services connection:'')) (\<lambda>_.
     io_bind (emit (Print (str_connection w connection))) (\<lambda>_.
     io_bind (call (ConnectionsGet connection_name True)
                (connections_get w connection_name True)) (\<lambda>connection.
     io_bind (emit (Print ''====> Get connection by name:'')) (\<lambda>_.
     io_bind (emit (Print (str_connection w connection))) (\<lambda>_.
     ret connection))))))))))))"

text \<open>
  \<^verbatim>\<open>get_bearer_token_provider(credential, scope)\<close> of \<^verbatim>\<open>azure.identity.aio\<close>:
  it only builds the callable. \<^verbatim>\<open>cast\<close> does nothing at run time, so the
  credential may be \<^verbatim>\<open>None\<close>.
\<close>

definition get_bearer_token_provider ::
    "token_credential option \<Rightarrow> string \<Rightarrow> token_provider io" where
  "get_bearer_token_provider cred scope =
     io_bind (emit (GetBearerTokenProvider cred scope)) (\<lambda>_.
     ret (BearerTokenProvider cred scope))"

text \<open>Lines 84 to 105: the OpenAI-compatible client, by authentication type.\<close>

definition new_openai_client :: "world \<Rightarrow> connection \<Rightarrow> AsyncAzureOpenAI io" where
  "new_openai_client w connection =
     (if authentication_type connection = API_KEY then
        io_bind (emit (Print
          ''====> Creating AzureOpenAI client using API key authentication'')) (\<lambda>_.
        let aoai_client = \<lparr> api_key = key connection,
                            azure_ad_token_provider = None,
                            azure_endpoint = endpoint_url connection,
                            api_version = ''2024-06-01'' \<rparr>
        in construct (NewAsyncAzureOpenAI aoai_client) (openai_init w aoai_client) aoai_client)
      else if authentication_type connection = ENTRA_ID then
        io_bind (emit (Print
          ''====> Creating AzureOpenAI client using Entra ID authentication'')) (\<lambda>_.
        io_bind (get_bearer_token_provider (token_credential connection)
          ''https://cognitiveservices.azure.com/.default'') (\<lambda>provider.
        let aoai_client = \<lparr> api_key = None,
                            azure_ad_token_provider = Some provider,
                            azure_endpoint = endpoint_url connection,
                            api_version = ''2024-06-01'' \<rparr>
        in construct (NewAsyncAzureOpenAI aoai_client) (openai_init w aoai_client) aoai_client))
      else
        raise (ValueError (''Authentication type ''
          @ format_authentication_type w (authentication_type connection)
          @ '' not supported.'')))"

text \<open>
  Lines 107 to 117: one request, then \<^verbatim>\<open>close\<close>, then the text of the first
  choice. \<^verbatim>\<open>close\<close> is an ordinary statement after the request: it is reached only
  when the request returned.
\<close>

definition openai_chat :: "world \<Rightarrow> AsyncAzureOpenAI \<Rightarrow> string \<Rightarrow> unit io" where
  "openai_chat w aoai_client model_deployment_name =
     (let messages = [[(''role'', ''user''), (''content'', ''How many feet are in a mile?'')]] in
      io_bind (call (ChatCompletionsCreate aoai_client model_deployment_name messages)
                 (chat_completions_create w aoai_client model_deployment_name messages))
        (\<lambda>aoai_response.
      io_bind (emit (OpenAIClose aoai_client)) (\<lambda>_.
      case aoai_response of
        [] \<Rightarrow> raise IndexError
      | content # _ \<Rightarrow> emit (Print (str_optional content)))))"

text \<open>Lines 124 to 140: the Inference-service client, by authentication type.\<close>

definition new_inference_client :: "world \<Rightarrow> connection \<Rightarrow> ChatCompletionsClient io" where
  "new_inference_client w connection =
     (if authentication_type connection = API_KEY then
        io_bind (emit (Print
          ''====> Creating ChatCompletionsClient using API key authentication'')) (\<lambda>_.
        io_bind (emit (NewAzureKeyCredential (key_or_empty (key connection)))) (\<lambda>_.
        let inference_client = \<lparr> endpoint = endpoint_url connection,
                                 credential = AzureKeyCredential (key_or_empty (key connection)) \<rparr>
        in construct (NewChatCompletionsClient inference_client)
             (inference_init w inference_client) inference_client))
      else if authentication_type connection = ENTRA_ID then
        io_bind (emit (Print
          ''====> Creating ChatCompletionsClient using Entra ID authentication'')) (\<lambda>_.
        let inference_client = \<lparr> endpoint = endpoint_url connection,
                                 credential = AsyncTokenCredential (token_credential connection) \<rparr>
        in construct (NewChatCompletionsClient inference_client)
             (inference_init w inference_client) inference_client)
      else
        raise (ValueError (''Authentication type ''
          @ format_authentication_type w (authentication_type connection)
          @ '' not supported.'')))"

text \<open>Lines 142 to 146.\<close>

definition inference_chat :: "world \<Rightarrow> ChatCompletionsClient \<Rightarrow> string \<Rightarrow> unit io" where
  "inference_chat w inference_client model_deployment_name =
     (let messages = [UserMessage ''How many feet are in a mile?''] in
      io_bind (call (InferenceComplete inference_client model_deployment_name messages)
                 (inference_complete w inference_client model_deployment_name messages))
        (\<lambda>inference_response.
      io_bind (emit (InferenceClose inference_client)) (\<lambda>_.
      case inference_response of
        [] \<Rightarrow> raise IndexError
      | content # _ \<Rightarrow> emit (Print (str_optional content)))))"

text \<open>
  Lines 79 to 146: the dispatch on the connection type. A connection of any other
  type falls through both tests and the coroutine returns.
\<close>

definition chat_block :: "world \<Rightarrow> connection \<Rightarrow> string \<Rightarrow> unit io" where
  "chat_block w connection model_deployment_name =
     (if connection_type connection = AZURE_OPEN_AI then
        io_bind (new_openai_client w connection) (\<lambda>aoai_client.
        openai_chat w aoai_client model_deployment_name)
      else if connection_type connection = AZURE_AI_SERVICES then
        io_bind (new_inference_client w connection) (\<lambda>inference_client.
        inference_chat w inference_client model_deployment_name)
      else ret ())"

text \<open>The coroutine, lines 35 to 146.\<close>

definition sample_connections_async :: "world \<Rightarrow> unit io" where
  "sample_connections_async w =
     io_bind (read_environment w)
       (\<lambda>(project_connection_string, connection_name, model_deployment_name).
     io_bind (new_project_client w project_connection_string) (\<lambda>_.
     io_bind (async_with (session_body w connection_name)) (\<lambda>connection.
     chat_block w connection model_deployment_name)))"

definition main :: "world \<Rightarrow> unit io" where
  "main w = sample_connections_async w"

section \<open>Reading a trace\<close>

fun is_environ_get :: "event \<Rightarrow> bool" where
  "is_environ_get (EnvironGet _) = True"
| "is_environ_get _ = False"

text \<open>The calls that go to the Cloud Connection Service or to a Chat Completion Service.\<close>

fun is_network_call :: "event \<Rightarrow> bool" where
  "is_network_call (ConnectionsList _) = True"
| "is_network_call (ConnectionsGetDefault _ _) = True"
| "is_network_call (ConnectionsGet _ _) = True"
| "is_network_call (ChatCompletionsCreate _ _ _) = True"
| "is_network_call (InferenceComplete _ _ _) = True"
| "is_network_call _ = False"

fun is_client_construction :: "event \<Rightarrow> bool" where
  "is_client_construction (NewAsyncAzureOpenAI _) = True"
| "is_client_construction (NewChatCompletionsClient _) = True"
| "is_client_construction _ = False"

fun is_bearer_call :: "event \<Rightarrow> bool" where
  "is_bearer_call (GetBearerTokenProvider _ _) = True"
| "is_bearer_call _ = False"

fun is_close :: "event \<Rightarrow> bool" where
  "is_close (OpenAIClose _) = True"
| "is_close (InferenceClose _) = True"
| "is_close _ = False"


section \<open>Which variant the spec selects\<close>

datatype client_variant = OpenAICompatible | InferenceService

text \<open>The variants whose constructor a trace calls, in order.\<close>

fun constructed_variants :: "event list \<Rightarrow> client_variant list" where
  "constructed_variants [] = []"
| "constructed_variants (NewAsyncAzureOpenAI _ # tr) = OpenAICompatible # constructed_variants tr"
| "constructed_variants (NewChatCompletionsClient _ # tr) = InferenceService # constructed_variants tr"
| "constructed_variants (_ # tr) = constructed_variants tr"

text \<open>
  The dispatch table of section 4.2 of the spec, read as a function of the two
  enumerations alone: the variant to construct, or none.
\<close>

definition spec_variant :: "connection_type \<Rightarrow> authentication_type \<Rightarrow> client_variant option" where
  "spec_variant t a =
     (if t = AZURE_OPEN_AI then
        (if a = API_KEY then Some OpenAICompatible
         else if a = ENTRA_ID then Some OpenAICompatible
         else None)
      else if t = AZURE_AI_SERVICES then
        (if a = API_KEY then Some InferenceService
         else if a = ENTRA_ID then Some InferenceService
         else None)
      else None)"

section \<open>Concrete connections and worlds\<close>

definition conn_a :: connection where
  "conn_a = \<lparr> name = ''conn-a'', connection_type = AZURE_AI_SERVICES,
     authentication_type = API_KEY, endpoint_url = ''https://a.example'',
     key = None, token_credential = None \<rparr>"

definition conn_b :: connection where
  "conn_b = \<lparr> name = ''conn-b'', connection_type = AZURE_OPEN_AI,
     authentication_type = API_KEY, endpoint_url = ''https://b.example'',
     key = Some ''secret'', token_credential = None \<rparr>"

definition conn_c :: connection where
  "conn_c = \<lparr> name = ''conn-c'', connection_type = SERVERLESS,
     authentication_type = API_KEY, endpoint_url = ''https://c.example'',
     key = Some ''other'', token_credential = None \<rparr>"

definition conn_b_no_key :: connection where
  "conn_b_no_key = conn_b \<lparr> key := None \<rparr>"


definition conn_b_sas :: connection where
  "conn_b_sas = conn_b \<lparr> authentication_type := OtherAuthenticationType ''SAS'' \<rparr>"


text \<open>
  A world in which every variable is set and every collaborator answers: three
  connections, of which only \<open>conn-b\<close> is an Azure OpenAI one.
\<close>

definition world_ok :: world where
  "world_ok = \<lparr>
     environ = (\<lambda>k. if k = ''PROJECT_CONNECTION_STRING'' then Some ''host;sub;rg;project''
                     else if k = ''CONNECTION_NAME'' then Some ''conn-b''
                     else if k = ''MODEL_DEPLOYMENT_NAME'' then Some ''gpt''
                     else None),
     str_connection = name,
     format_authentication_type =
       (\<lambda>a. case a of API_KEY \<Rightarrow> ''ApiKey'' | ENTRA_ID \<Rightarrow> ''AAD''
              | OtherAuthenticationType s \<Rightarrow> s),
     from_connection_string = (\<lambda>_. None),
     connections_list = (\<lambda>t. if t = None then Inr [conn_a, conn_b, conn_c] else Inr [conn_b]),
     connections_get_default = (\<lambda>_ _. Inr conn_a),
     connections_get = (\<lambda>n _. if n = ''conn-b'' then Inr conn_b
                               else Inl (ExternalError ''NotFound'')),
     openai_init = (\<lambda>_. None),
     chat_completions_create = (\<lambda>_ _ _. Inr [Some ''5280'']),
     inference_init = (\<lambda>_. None),
     inference_complete = (\<lambda>_ _ _. Inr [Some ''5280'']) \<rparr>"

text \<open>The same world with the model deployment name not set.\<close>

definition world_no_model :: world where
  "world_no_model = world_ok \<lparr> environ :=
     (\<lambda>k. if k = ''PROJECT_CONNECTION_STRING'' then Some ''host;sub;rg;project''
           else if k = ''CONNECTION_NAME'' then Some ''conn-b''
           else None) \<rparr>"


text \<open>The same world with a chat service that refuses the request.\<close>

definition world_request_fails :: world where
  "world_request_fails = world_ok \<lparr> chat_completions_create :=
     (\<lambda>_ _ _. Inl (ExternalError ''429'')) \<rparr>"

section \<open>Sequencing laws\<close>

lemma io_bind_ret: "io_bind (ret x) f = f x"
  by (simp add: io_bind_def ret_def)

lemma io_bind_raise: "io_bind (raise e) f = raise e"
  by (simp add: io_bind_def raise_def)

lemma io_bind_emit: "io_bind (emit ev) f = (fst (f ()), ev # snd (f ()))"
  by (simp add: io_bind_def emit_def)

lemma io_bind_call:
  "io_bind (call ev r) f =
     (case r of Inl e \<Rightarrow> (Inl e, [ev]) | Inr x \<Rightarrow> (fst (f x), ev # snd (f x)))"
  by (simp add: io_bind_def call_def split: sum.splits)

lemma io_bind_construct:
  "io_bind (construct ev err obj) f =
     (case err of Some e \<Rightarrow> (Inl e, [ev]) | None \<Rightarrow> (fst (f obj), ev # snd (f obj)))"
  by (simp add: io_bind_def construct_def split: option.splits)

lemma io_bind_pair:
  "io_bind (Inr x, tr) f = (fst (f x), tr @ snd (f x))"
  "io_bind (Inl e, tr) f = (Inl e, tr)"
  by (simp_all add: io_bind_def)

lemma io_results:
  "fst (ret x) = Inr x" "snd (ret x) = []"
  "fst (raise e :: 'a io) = Inl e" "snd (raise e :: 'a io) = []"
  "fst (emit ev) = Inr ()" "snd (emit ev) = [ev]"
  "fst (construct ev err obj) = (case err of None \<Rightarrow> Inr obj | Some e \<Rightarrow> Inl e)"
  "snd (construct ev err obj) = [ev]"
  by (simp_all add: ret_def raise_def emit_def construct_def)

lemmas io_simps = io_bind_ret io_bind_raise io_bind_emit io_bind_call io_bind_construct
  io_bind_pair io_results

lemma for_each_print:
  "for_each xs (\<lambda>x. emit (Print (g x))) = (Inr (), map (\<lambda>x. Print (g x)) xs)"
  by (induction xs) (simp_all add: io_simps ret_def)

section \<open>The request blocks construct nothing\<close>

lemma openai_chat_trace:
  "filter is_client_construction (snd (openai_chat w cl m)) = []"
  "filter is_bearer_call (snd (openai_chat w cl m)) = []"
  "constructed_variants (snd (openai_chat w cl m)) = []"
  by (simp_all add: openai_chat_def io_simps Let_def split: sum.splits list.splits)

lemma inference_chat_trace:
  "filter is_client_construction (snd (inference_chat w cl m)) = []"
  "filter is_bearer_call (snd (inference_chat w cl m)) = []"
  "constructed_variants (snd (inference_chat w cl m)) = []"
  by (simp_all add: inference_chat_def io_simps Let_def split: sum.splits list.splits)

section \<open>The OpenAI-compatible client\<close>

text \<open>
  C1, as the code has it. For a connection of type AzureOpenAI with ApiKey
  authentication the script calls the OpenAI-compatible constructor once, with
  \<^verbatim>\<open>api_key\<close> set to \<^verbatim>\<open>connection.key\<close> as it is (absent when the connection
  has no key: the script makes no presence check of its own), with no token provider,
  and it never calls the bearer-token provider. What the client block returns is
  decided by the constructor alone.
\<close>

theorem C1_api_key_passed_through:
  assumes "connection_type c = AZURE_OPEN_AI" and "authentication_type c = API_KEY"
  shows "filter is_client_construction (snd (chat_block w c m)) =
           [NewAsyncAzureOpenAI \<lparr> api_key = key c, azure_ad_token_provider = None,
              azure_endpoint = endpoint_url c, api_version = ''2024-06-01'' \<rparr>]
         \<and> filter is_bearer_call (snd (chat_block w c m)) = []
         \<and> fst (new_openai_client w c) =
             (case openai_init w \<lparr> api_key = key c, azure_ad_token_provider = None,
                     azure_endpoint = endpoint_url c, api_version = ''2024-06-01'' \<rparr> of
                None \<Rightarrow> Inr \<lparr> api_key = key c, azure_ad_token_provider = None,
                     azure_endpoint = endpoint_url c, api_version = ''2024-06-01'' \<rparr>
              | Some e \<Rightarrow> Inl e)"
  using assms
  by (simp add: chat_block_def new_openai_client_def io_simps Let_def openai_chat_trace
      split: option.splits)

theorem C1_api_key_passed_through_witness:
  "connection_type conn_b = AZURE_OPEN_AI \<and> authentication_type conn_b = API_KEY
   \<and> filter is_client_construction (snd (chat_block world_ok conn_b ''gpt'')) =
       [NewAsyncAzureOpenAI \<lparr> api_key = Some ''secret'', azure_ad_token_provider = None,
          azure_endpoint = ''https://b.example'', api_version = ''2024-06-01'' \<rparr>]
   \<and> filter is_bearer_call (snd (chat_block world_ok conn_b ''gpt'')) = []"
  using C1_api_key_passed_through [of conn_b world_ok "''gpt''"]
  by (simp add: conn_b_def)

text \<open>
  C1 as stated fails where it says that the key is required: with \<^verbatim>\<open>key = None\<close>
  the script raises nothing, the constructor is called with \<^verbatim>\<open>api_key=None\<close>, and
  when the constructor accepts that the run goes on to the request and ends normally.
\<close>

theorem C1_key_not_required_counterexample:
  "connection_type conn_b_no_key = AZURE_OPEN_AI
   \<and> authentication_type conn_b_no_key = API_KEY
   \<and> key conn_b_no_key = None
   \<and> chat_block world_ok conn_b_no_key ''gpt'' =
       (Inr (),
        [Print ''====> Creating AzureOpenAI client using API key authentication'',
         NewAsyncAzureOpenAI \<lparr> api_key = None, azure_ad_token_provider = None,
           azure_endpoint = ''https://b.example'', api_version = ''2024-06-01'' \<rparr>,
         ChatCompletionsCreate \<lparr> api_key = None, azure_ad_token_provider = None,
           azure_endpoint = ''https://b.example'', api_version = ''2024-06-01'' \<rparr> ''gpt''
           [[(''role'', ''user''), (''content'', ''How many feet are in a mile?'')]],
         OpenAIClose \<lparr> api_key = None, azure_ad_token_provider = None,
           azure_endpoint = ''https://b.example'', api_version = ''2024-06-01'' \<rparr>,
         Print ''5280''])"
  by (simp add: conn_b_no_key_def conn_b_def world_ok_def chat_block_def new_openai_client_def
      openai_chat_def io_simps Let_def str_optional_def)



section \<open>Unsupported authentication\<close>

text \<open>
  C3. For a connection of type AzureOpenAI or AzureAIServices whose authentication type
  is neither ApiKey nor EntraId the dispatch raises the script's unsupported
  authentication error, a \<^verbatim>\<open>ValueError\<close> whose message carries the offending
  authentication type, before any event: no client of either variant is constructed.
\<close>

theorem C3_unsupported_authentication:
  assumes "connection_type c = AZURE_OPEN_AI \<or> connection_type c = AZURE_AI_SERVICES"
    and "authentication_type c \<noteq> API_KEY" and "authentication_type c \<noteq> ENTRA_ID"
  shows "chat_block w c m =
           (Inl (ValueError (''Authentication type ''
              @ format_authentication_type w (authentication_type c) @ '' not supported.'')), [])
         \<and> filter is_client_construction (snd (chat_block w c m)) = []"
  using assms
  by (auto simp add: chat_block_def new_openai_client_def new_inference_client_def io_simps
      raise_def)

theorem C3_unsupported_authentication_witness:
  "(connection_type conn_b_sas = AZURE_OPEN_AI \<or> connection_type conn_b_sas = AZURE_AI_SERVICES)
   \<and> authentication_type conn_b_sas \<noteq> API_KEY \<and> authentication_type conn_b_sas \<noteq> ENTRA_ID
   \<and> chat_block world_ok conn_b_sas ''gpt'' =
       (Inl (ValueError ''Authentication type SAS not supported.''), [])"
  using C3_unsupported_authentication [of conn_b_sas world_ok "''gpt''"]
  by (simp add: conn_b_sas_def conn_b_def world_ok_def)

section \<open>The Inference-service client\<close>

text \<open>
  C4. For a connection of type AzureAIServices with ApiKey authentication and no key
  the script calls the Inference-service constructor once, with a key credential whose
  key is the empty string. The script raises nothing for the missing key: what the
  client block returns is decided by the constructor alone.
\<close>

theorem C4_missing_key_becomes_empty_string:
  assumes "connection_type c = AZURE_AI_SERVICES" and "authentication_type c = API_KEY"
    and "key c = None"
  shows "filter is_client_construction (snd (chat_block w c m)) =
           [NewChatCompletionsClient
              \<lparr> endpoint = endpoint_url c, credential = AzureKeyCredential [] \<rparr>]
         \<and> fst (new_inference_client w c) =
             (case inference_init w
                     \<lparr> endpoint = endpoint_url c, credential = AzureKeyCredential [] \<rparr> of
                None \<Rightarrow> Inr \<lparr> endpoint = endpoint_url c, credential = AzureKeyCredential [] \<rparr>
              | Some e \<Rightarrow> Inl e)"
  using assms
  by (simp add: chat_block_def new_inference_client_def io_simps Let_def inference_chat_trace
      key_or_empty_def split: option.splits)

theorem C4_missing_key_becomes_empty_string_witness:
  "connection_type conn_a = AZURE_AI_SERVICES \<and> authentication_type conn_a = API_KEY
   \<and> key conn_a = None
   \<and> filter is_client_construction (snd (chat_block world_ok conn_a ''gpt'')) =
       [NewChatCompletionsClient
          \<lparr> endpoint = ''https://a.example'', credential = AzureKeyCredential [] \<rparr>]
   \<and> fst (new_inference_client world_ok conn_a) =
       Inr \<lparr> endpoint = ''https://a.example'', credential = AzureKeyCredential [] \<rparr>"
  using C4_missing_key_becomes_empty_string [of conn_a world_ok "''gpt''"]
  by (simp add: conn_a_def world_ok_def)



section \<open>Release of the session and of the chat client\<close>

text \<open>
  The session is left on every path that entered it: the block of lines 46 to 76 ends
  with the exit event whatever its body did.
\<close>

lemma async_with_releases:
  "\<exists>body_trace. snd (async_with body) = SessionEnter # body_trace @ [SessionExit]"
  by (simp add: async_with_def)

text \<open>
  A request that raises leaves the client open: line 116 is not reached. This holds for
  both variants.
\<close>

lemma openai_chat_request_raises:
  "chat_completions_create w cl m
     [[(''role'', ''user''), (''content'', ''How many feet are in a mile?'')]] = Inl e
   \<Longrightarrow> openai_chat w cl m =
         (Inl e, [ChatCompletionsCreate cl m
            [[(''role'', ''user''), (''content'', ''How many feet are in a mile?'')]]])"
  by (simp add: openai_chat_def io_simps Let_def)

lemma inference_chat_request_raises:
  "inference_complete w cl m [UserMessage ''How many feet are in a mile?''] = Inl e
   \<Longrightarrow> inference_chat w cl m =
         (Inl e, [InferenceComplete cl m [UserMessage ''How many feet are in a mile?'']])"
  by (simp add: inference_chat_def io_simps Let_def)

text \<open>
  C6, at the failing input. The connection fetched by name is an AzureOpenAI one with an
  API key and the chat service refuses the request. The session is entered and left,
  the client is constructed, the request raises, and the run ends with that exception:
  the trace has no close event for the client.
\<close>

theorem C6_client_left_open_when_request_raises:
  "sample_connections_async world_request_fails =
     (Inl (ExternalError ''429''),
      [EnvironGet ''PROJECT_CONNECTION_STRING'', EnvironGet ''CONNECTION_NAME'',
       EnvironGet ''MODEL_DEPLOYMENT_NAME'', NewDefaultAzureCredential,
       FromConnectionString ''host;sub;rg;project'', SessionEnter,
       ConnectionsList None,
       Print ''====> Listing of all connections (found 3):'',
       Print ''conn-a'', Print ''conn-b'', Print ''conn-c'',
       ConnectionsList (Some AZURE_OPEN_AI),
       Print ''====> Listing of all Azure Open AI connections (found {len(connections)}):'',
       Print ''conn-b'',
       ConnectionsGetDefault AZURE_AI_SERVICES True,
       Print ''====> Get default Azure AI Services connection:'', Print ''conn-a'',
       ConnectionsGet ''conn-b'' True,
       Print ''====> Get connection by name:'', Print ''conn-b'',
       SessionExit,
       Print ''====> Creating AzureOpenAI client using API key authentication'',
       NewAsyncAzureOpenAI \<lparr> api_key = Some ''secret'', azure_ad_token_provider = None,
         azure_endpoint = ''https://b.example'', api_version = ''2024-06-01'' \<rparr>,
       ChatCompletionsCreate \<lparr> api_key = Some ''secret'', azure_ad_token_provider = None,
         azure_endpoint = ''https://b.example'', api_version = ''2024-06-01'' \<rparr> ''gpt''
         [[(''role'', ''user''), (''content'', ''How many feet are in a mile?'')]]])
   \<and> filter is_close (snd (sample_connections_async world_request_fails)) = []"
  by (simp add: sample_connections_async_def read_environment_def environ_get_def
      new_project_client_def async_with_def session_body_def chat_block_def
      new_openai_client_def openai_chat_def for_each_print io_simps Let_def
      world_request_fails_def world_ok_def conn_a_def conn_b_def conn_c_def
      str_nat.simps digit_char_def)

section \<open>The environment\<close>

text \<open>
  Every run starts with the three reads, in this order, and stops at the first variable
  that is not set.
\<close>

lemma read_environment_cases:
  "read_environment w =
     (case environ w ''PROJECT_CONNECTION_STRING'' of
        None \<Rightarrow> (Inl (KeyError ''PROJECT_CONNECTION_STRING''),
                  [EnvironGet ''PROJECT_CONNECTION_STRING''])
      | Some pcs \<Rightarrow>
          (case environ w ''CONNECTION_NAME'' of
             None \<Rightarrow> (Inl (KeyError ''CONNECTION_NAME''),
                       [EnvironGet ''PROJECT_CONNECTION_STRING'', EnvironGet ''CONNECTION_NAME''])
           | Some cn \<Rightarrow>
               (case environ w ''MODEL_DEPLOYMENT_NAME'' of
                  None \<Rightarrow> (Inl (KeyError ''MODEL_DEPLOYMENT_NAME''),
                            [EnvironGet ''PROJECT_CONNECTION_STRING'',
                             EnvironGet ''CONNECTION_NAME'',
                             EnvironGet ''MODEL_DEPLOYMENT_NAME''])
                | Some mdn \<Rightarrow> (Inr (pcs, cn, mdn),
                            [EnvironGet ''PROJECT_CONNECTION_STRING'',
                             EnvironGet ''CONNECTION_NAME'',
                             EnvironGet ''MODEL_DEPLOYMENT_NAME'']))))"
  by (simp add: read_environment_def environ_get_def io_simps split: option.splits)

text \<open>
  C7. When one of the three variables is not set, the run ends with the
  \<^verbatim>\<open>KeyError\<close> of a variable that is not set, and its trace holds environment reads
  only: no credential, no client, no session, no network call. And in every run,
  whatever is not an environment read comes after the three reads.
\<close>

theorem C7_missing_variable_is_fatal_before_any_call:
  "(environ w ''PROJECT_CONNECTION_STRING'' = None \<or> environ w ''CONNECTION_NAME'' = None
      \<or> environ w ''MODEL_DEPLOYMENT_NAME'' = None \<longrightarrow>
      (\<exists>k. fst (sample_connections_async w) = Inl (KeyError k) \<and> environ w k = None
         \<and> (k = ''PROJECT_CONNECTION_STRING'' \<or> k = ''CONNECTION_NAME''
              \<or> k = ''MODEL_DEPLOYMENT_NAME''))
      \<and> filter (\<lambda>ev. \<not> is_environ_get ev) (snd (sample_connections_async w)) = []
      \<and> filter is_network_call (snd (sample_connections_async w)) = [])
   \<and> (filter (\<lambda>ev. \<not> is_environ_get ev) (snd (sample_connections_async w)) = []
      \<or> take 3 (snd (sample_connections_async w)) =
           [EnvironGet ''PROJECT_CONNECTION_STRING'', EnvironGet ''CONNECTION_NAME'',
            EnvironGet ''MODEL_DEPLOYMENT_NAME''])"
  by (auto simp add: sample_connections_async_def read_environment_cases io_simps
      split: option.splits)

theorem C7_missing_variable_is_fatal_before_any_call_witness:
  "environ world_no_model ''MODEL_DEPLOYMENT_NAME'' = None
   \<and> (\<exists>k. fst (sample_connections_async world_no_model) = Inl (KeyError k)
         \<and> environ world_no_model k = None)
   \<and> filter is_network_call (snd (sample_connections_async world_no_model)) = []
   \<and> filter (\<lambda>ev. \<not> is_environ_get ev) (snd (sample_connections_async world_no_model)) = []"
proof -
  have unset: "environ world_no_model ''MODEL_DEPLOYMENT_NAME'' = None"
    by (simp add: world_no_model_def world_ok_def)
  with C7_missing_variable_is_fatal_before_any_call [of world_no_model]
  show ?thesis by blast
qed

section \<open>One variant at most\<close>

lemma constructed_variants_append:
  "constructed_variants (xs @ ys) = constructed_variants xs @ constructed_variants ys"
  by (induction xs rule: constructed_variants.induct) simp_all

text \<open>
  C8, as the code has it. The dispatch calls at most one client constructor, and which
  one is a function of the connection type and then of the authentication type: the
  OpenAI-compatible one for AzureOpenAI and the Inference-service one for
  AzureAIServices when the authentication type is ApiKey or EntraId, none for any
  other connection type or authentication type.
\<close>

theorem C8_variant_by_type_then_authentication:
  "constructed_variants (snd (chat_block w c m)) =
     (case spec_variant (connection_type c) (authentication_type c) of
        None \<Rightarrow> []
      | Some v \<Rightarrow> [v])"
  by (simp add: chat_block_def spec_variant_def new_openai_client_def new_inference_client_def
      get_bearer_token_provider_def io_simps Let_def openai_chat_trace inference_chat_trace
      split: option.splits)

text \<open>
  C8 as stated fails for a connection the dispatch does not handle: for the Serverless
  connection \<open>conn-c\<close> the script does nothing and returns, with no client constructed.
\<close>

theorem C8_no_client_for_serverless_counterexample:
  "connection_type conn_c = SERVERLESS
   \<and> chat_block world_ok conn_c ''gpt'' = (Inr (), [])
   \<and> length (filter is_client_construction (snd (chat_block world_ok conn_c ''gpt''))) \<noteq> 1"
  by (simp add: conn_c_def chat_block_def ret_def)

section \<open>The connection that is dispatched on\<close>













section \<open>The two listing headers\<close>

text \<open>
  C10. Whatever the two list calls return, the header printed after the filtered call
  is the fixed text with the braces in it, while the header printed after the first
  call has the number of connections in decimal.
\<close>

theorem C10_second_header_is_literal:
  assumes "connections_list w None = Inr cs"
    and "connections_list w (Some AZURE_OPEN_AI) = Inr cs'"
  shows "\<exists>rest. snd (session_body w cn) =
           [ConnectionsList None,
            Print (''====> Listing of all connections (found '' @ str_nat (length cs) @ ''):'')]
           @ map (\<lambda>connection. Print (str_connection w connection)) cs
           @ [ConnectionsList (Some AZURE_OPEN_AI),
              Print ''====> Listing of all Azure Open AI connections (found {len(connections)}):'']
           @ map (\<lambda>connection. Print (str_connection w connection)) cs'
           @ rest"
  using assms
  by (simp add: session_body_def io_simps for_each_print)

theorem C10_second_header_is_literal_witness:
  "connections_list world_ok None = Inr [conn_a, conn_b, conn_c]
   \<and> connections_list world_ok (Some AZURE_OPEN_AI) = Inr [conn_b]
   \<and> take 8 (snd (session_body world_ok ''conn-b'')) =
       [ConnectionsList None,
        Print ''====> Listing of all connections (found 3):'',
        Print ''conn-a'', Print ''conn-b'', Print ''conn-c'',
        ConnectionsList (Some AZURE_OPEN_AI),
        Print ''====> Listing of all Azure Open AI connections (found {len(connections)}):'',
        Print ''conn-b'']"
proof -
  have a: "connections_list world_ok None = Inr [conn_a, conn_b, conn_c]"
    and b: "connections_list world_ok (Some AZURE_OPEN_AI) = Inr [conn_b]"
    by (simp_all add: world_ok_def)
  from C10_second_header_is_literal [OF a b, of "''conn-b''"]
  obtain rest where "snd (session_body world_ok ''conn-b'') =
      [ConnectionsList None,
       Print (''====> Listing of all connections (found '' @ str_nat (length [conn_a, conn_b, conn_c]) @ ''):'')]
      @ map (\<lambda>connection. Print (str_connection world_ok connection)) [conn_a, conn_b, conn_c]
      @ [ConnectionsList (Some AZURE_OPEN_AI),
         Print ''====> Listing of all Azure Open AI connections (found {len(connections)}):'']
      @ map (\<lambda>connection. Print (str_connection world_ok connection)) [conn_b]
      @ rest"
    by blast
  then have "take 8 (snd (session_body world_ok ''conn-b'')) =
       [ConnectionsList None,
        Print ''====> Listing of all connections (found 3):'',
        Print ''conn-a'', Print ''conn-b'', Print ''conn-c'',
        ConnectionsList (Some AZURE_OPEN_AI),
        Print ''====> Listing of all Azure Open AI connections (found {len(connections)}):'',
        Print ''conn-b'']"
    by (simp add: world_ok_def conn_a_def conn_b_def conn_c_def str_nat.simps digit_char_def)
  with a b show ?thesis by simp
qed

end
